theory Spec2Isabelle
  imports Complex_Main "HOL-Library.Sublist"
begin

chapter \<open>OverlapPredator: registration service and point-cloud visualizer\<close>

text \<open>
  A shallow embedding of \<^verbatim>\<open>src/service/predator_server.py\<close> (the dataset wrapper
  \<^verbatim>\<open>ThreeDMatchDemo\<close> and the orchestrator \<^verbatim>\<open>predator_infer\<close>) and of the splitting and
  downsampling of the clouds in \<^verbatim>\<open>src/web_pointcloud_visualizer.py\<close>
  (\<^verbatim>\<open>load_test_results\<close>, lines 56 to 61).

  Conventions of the embedding.
  \<^item> Numbers are exact rationals. The source computes in binary floating point (float32
    for scores and weights); rounding, underflow and overflow are not modelled, so a
    product or quotient of the embedding is the exact value that the float32 result
    approximates. What is modelled of IEEE arithmetic is the one place where the source
    relies on it: a division by a zero sum, which yields NaN or an infinity instead of
    raising (type \<open>fp\<close> below).
  \<^item> A tensor or array of shape \<open>(N, k)\<close> is the list of its \<open>N\<close> rows; a one-dimensional
    tensor is a list.
  \<^item> An exception is a value \<open>Inl e\<close> of the result type \<open>error + 'a\<close>.
  \<^item> The pseudo-random generator is an explicit argument: the stream of raw 53-bit draws,
    returned advanced by whatever was consumed.
  \<^item> Code of the repository that is not part of the sources at hand (the batching of
    \<^verbatim>\<open>datasets.dataloader\<close>, the network \<^verbatim>\<open>KPFCNN\<close>, \<^verbatim>\<open>ransac_pose_estimation\<close>) is a
    parameter, collected in the record \<open>env\<close>. So is numpy's conversion of a request
    value to an array: which values it accepts and which exception it raises on the others
    is numpy's matter, not the source's.
\<close>

section \<open>Python, numpy and torch primitives\<close>

text \<open>
  Python exceptions: the three that the modelled code raises itself, two more that
  \<^verbatim>\<open>np.asarray\<close> can raise on a request value, and the three error kinds that the
  specification names. The source defines no exception class of its own; no definition
  below produces one of the last three constructors.
\<close>

datatype error =
  IndexError | ValueError | RuntimeError
  | TypeError | OverflowError
  | InvalidInputError | InvalidScoreError | InvalidConfigError

subsection \<open>Slices\<close>

text \<open>\<^verbatim>\<open>xs[:n]\<close> and \<^verbatim>\<open>xs[n:]\<close>; a negative bound counts from the end.\<close>

definition slice_to :: "int \<Rightarrow> 'a list \<Rightarrow> 'a list" where
  "slice_to n xs = take (nat (if n < 0 then int (length xs) + n else n)) xs"

definition slice_from :: "int \<Rightarrow> 'a list \<Rightarrow> 'a list" where
  "slice_from n xs = drop (nat (if n < 0 then int (length xs) + n else n)) xs"

text \<open>
  \<^verbatim>\<open>xs[::d]\<close>. For a positive step the slice takes the element at index 0 and then
  skips \<open>d - 1\<close> elements, repeatedly; a negative step walks from the last element
  backwards; a zero step raises \<^verbatim>\<open>ValueError\<close>.
\<close>

function every_nth :: "nat \<Rightarrow> 'a list \<Rightarrow> 'a list" where
  "every_nth d [] = []"
| "every_nth d (x # xs) = x # every_nth d (drop (d - 1) xs)"
  by pat_completeness auto
termination
  by (relation "measure (\<lambda>(d, xs). length xs)") auto

definition slice_step :: "int \<Rightarrow> 'a list \<Rightarrow> error + 'a list" where
  "slice_step d xs =
     (if d = 0 then Inl ValueError
      else if 0 < d then Inr (every_nth (nat d) xs)
      else Inr (every_nth (nat (- d)) (rev xs)))"

subsection \<open>Matrices\<close>

type_synonym matrix = "rat list list"

text \<open>\<^verbatim>\<open>np.eye(n)\<close>.\<close>

definition eye :: "nat \<Rightarrow> matrix" where
  "eye n = map (\<lambda>i. map (\<lambda>j. if i = j then 1 else 0) [0..<n]) [0..<n]"


section \<open>The visualizer: splitting and downsampling\<close>

text \<open>
  Lines 56 to 61 of \<^verbatim>\<open>load_test_results\<close>: the stacked cloud \<^verbatim>\<open>pcd\<close> read from a result
  file is cut at \<^verbatim>\<open>len_src\<close>, and every \<^verbatim>\<open>downsample_factor\<close>-th point of either part is
  kept. The result holds \<^verbatim>\<open>src_pcd\<close>, \<^verbatim>\<open>tgt_pcd\<close>, \<^verbatim>\<open>src_points\<close> and \<^verbatim>\<open>tgt_points\<close>. The
  cloud is an array with at least one axis, the list of its rows, whatever a row is;
  \<^verbatim>\<open>len_src\<close> and \<^verbatim>\<open>downsample_factor\<close> are integers. The loop catches every exception of
  its body and goes on to the next file; here the exception is the result \<open>Inl\<close>.
\<close>

definition downsample_clouds ::
  "'a list \<Rightarrow> int \<Rightarrow> int \<Rightarrow> error + ('a list \<times> 'a list \<times> 'a list \<times> 'a list)" where
  "downsample_clouds pcd len_src downsample_factor =
     (let src_pcd = slice_to len_src pcd;
          tgt_pcd = slice_from len_src pcd
      in case slice_step downsample_factor src_pcd of
           Inl e \<Rightarrow> Inl e
         | Inr src_points \<Rightarrow>
             (case slice_step downsample_factor tgt_pcd of
                Inl e \<Rightarrow> Inl e
              | Inr tgt_points \<Rightarrow> Inr (src_pcd, tgt_pcd, src_points, tgt_points)))"

section \<open>The registration service: tensor operations\<close>

text \<open>
  \<^verbatim>\<open>a * b\<close> on one-dimensional tensors: the element-wise product. Tensors of different
  lengths are broadcast when one of them has length 1; otherwise torch raises
  \<^verbatim>\<open>RuntimeError\<close>. The product of two entries is torch's float32 product, rendered by
  the exact product.
\<close>

definition tensor_mul :: "rat list \<Rightarrow> rat list \<Rightarrow> error + rat list" where
  "tensor_mul a b =
     (if length a = length b then Inr (map2 (*) a b)
      else if length a = 1 then Inr (map (\<lambda>y. hd a * y) b)
      else if length b = 1 then Inr (map (\<lambda>x. x * hd b) a)
      else Inl RuntimeError)"

text \<open>\<^verbatim>\<open>t[idx]\<close> for an array of indices: the rows of \<open>t\<close> at these indices, in the order
  of \<open>idx\<close>; an index out of range raises \<^verbatim>\<open>IndexError\<close>.\<close>

definition tensor_index :: "'a list \<Rightarrow> nat list \<Rightarrow> error + 'a list" where
  "tensor_index t idx =
     (if list_all (\<lambda>i. i < length t) idx then Inr (map (\<lambda>i. t ! i) idx)
      else Inl IndexError)"

text \<open>
  The result of a floating-point division: a finite value, an infinity or NaN. torch
  raises nothing when the divisor is zero.
\<close>

datatype fp = Fin rat | PInf | NInf | NaN

definition fp_div :: "rat \<Rightarrow> rat \<Rightarrow> fp" where
  "fp_div x s =
     (if s \<noteq> 0 then Fin (x / s)
      else if x = 0 then NaN
      else if 0 < x then PInf
      else NInf)"

text \<open>\<^verbatim>\<open>(scores / scores.sum()).numpy().flatten()\<close>; the sum of an empty tensor is 0. Sum and
  quotient are float32 operations, rendered exactly: the float32 quotient of a weight
  below about \<open>2^-126\<close> times the sum loses precision, and below \<open>2^-150\<close> times the sum it
  is 0.\<close>

definition probs_of :: "rat list \<Rightarrow> fp list" where
  "probs_of scores = map (\<lambda>w. fp_div w (sum_list scores)) scores"

section \<open>The registration service: \<^verbatim>\<open>numpy.random.choice\<close>\<close>

text \<open>
  \<^verbatim>\<open>np.random.choice(a, size=size, replace=False, p=p)\<close> for \<^verbatim>\<open>a = np.arange(pop_size)\<close>,
  after the legacy implementation \<^verbatim>\<open>RandomState.choice\<close> of numpy: the checks on \<open>p\<close>
  and on the size (\<open>sz\<close> below) in numpy's order, each raising \<^verbatim>\<open>ValueError\<close>, then the
  sampling loop.

  The generator state is the stream of its future raw draws; \<^verbatim>\<open>self.rand(m)\<close> turns the
  next \<open>m\<close> of them into doubles of \<open>[0, 1)\<close>, each a 53-bit integer divided by \<open>2^53\<close>.
\<close>

type_synonym rng = "nat \<Rightarrow> nat"

definition uniform01 :: "nat \<Rightarrow> rat" where
  "uniform01 r = rat_of_nat (r mod 2 ^ 53) / 2 ^ 53"

definition rand :: "nat \<Rightarrow> rng \<Rightarrow> rat list \<times> rng" where
  "rand m rnd = (map (\<lambda>i. uniform01 (rnd i)) [0..<m], (\<lambda>i. rnd (i + m)))"

text \<open>\<^verbatim>\<open>np.cumsum(p)\<close>.\<close>

fun cumsum_from :: "rat \<Rightarrow> rat list \<Rightarrow> rat list" where
  "cumsum_from acc [] = []"
| "cumsum_from acc (x # xs) = (acc + x) # cumsum_from (acc + x) xs"

definition cumsum :: "rat list \<Rightarrow> rat list" where
  "cumsum p = cumsum_from 0 p"

text \<open>\<^verbatim>\<open>cdf.searchsorted(x, side='right')\<close> on an ascending \<open>cdf\<close>: the number of entries
  that are at most \<open>x\<close>, which is the index of the first entry greater than \<open>x\<close>.\<close>

definition searchsorted_right :: "rat list \<Rightarrow> rat \<Rightarrow> nat" where
  "searchsorted_right cdf x = length (takeWhile (\<lambda>c. c \<le> x) cdf)"

text \<open>
  \<^verbatim>\<open>_, unique_indices = np.unique(new, return_index=True); unique_indices.sort();
  new = new.take(unique_indices)\<close>: the distinct values of \<open>new\<close>, each at its first
  occurrence.
\<close>

definition unique_first :: "nat list \<Rightarrow> nat list" where
  "unique_first new = rev (remdups (rev new))"

text \<open>\<^verbatim>\<open>p[flat_found[0:n_uniq]] = 0\<close>.\<close>

definition zero_at :: "nat list \<Rightarrow> rat list \<Rightarrow> rat list" where
  "zero_at found p = fold (\<lambda>i q. q[i := 0]) found p"

text \<open>
  The loop \<^verbatim>\<open>while n_uniq < size\<close>; \<open>found\<close> is \<^verbatim>\<open>flat_found[0:n_uniq]\<close>. Every round
  draws \<open>sz - n_uniq\<close> numbers and appends at least one index, so the loop ends.
\<close>

function choice_loop :: "rng \<Rightarrow> rat list \<Rightarrow> nat list \<Rightarrow> nat \<Rightarrow> nat list \<times> rng" where
  "choice_loop rnd p found sz =
     (if sz \<le> length found then (found, rnd)
      else
        (let x = fst (rand (sz - length found) rnd);
             rnd' = snd (rand (sz - length found) rnd);
             p' = zero_at found p;
             cdf = cumsum p';
             cdf' = map (\<lambda>c. c / last cdf) cdf;
             new = unique_first (map (searchsorted_right cdf') x)
         in choice_loop rnd' p' (found @ new) sz))"
  by pat_completeness auto
termination
proof (relation "measure (\<lambda>(rnd, p, found, sz). sz - length found)")
  show "wf (measure (\<lambda>(rnd, p, found, sz). sz - length found))"
    by simp
next
  fix rnd :: rng and p :: "rat list" and found :: "nat list" and sz :: nat
    and x rnd' p' cdf cdf' new
  assume run: "\<not> sz \<le> length found"
    and x: "x = fst (rand (sz - length found) rnd)"
    and new: "new = unique_first (map (searchsorted_right cdf') x)"
  from run x have "x \<noteq> []"
    by (simp add: rand_def)
  with new have "new \<noteq> []"
    by (simp add: unique_first_def)
  with run show "((rnd', p', found @ new, sz), (rnd, p, found, sz))
      \<in> measure (\<lambda>(rnd, p, found, sz). sz - length found)"
    by (cases new) simp_all
qed

text \<open>The finite entries of \<open>p\<close>, when all of them are finite.\<close>

fun fp_finite :: "fp list \<Rightarrow> rat list option" where
  "fp_finite [] = Some []"
| "fp_finite (Fin x # ps) = map_option ((#) x) (fp_finite ps)"
| "fp_finite (_ # ps) = None"

text \<open>
  The checks, in numpy's order: an empty population with a non-zero sz; \<open>p\<close> of
  another length than the population; a NaN sum (\<^verbatim>\<open>probabilities contain NaN\<close>), a
  negative entry, a sum that is not 1 within \<open>sqrt eps\<close> for the float32 \<open>eps = 2^-23\<close>;
  a sz above the population; a negative sz; fewer positive entries than \<open>sz\<close>.
  A NaN entry makes the sum NaN; an infinite entry makes the sum NaN or infinite or, when
  negative, is a negative entry: each case raises, so every \<open>p\<close> with an entry that is
  not finite is refused at the first of these three checks that applies.
\<close>

definition np_random_choice ::
  "rng \<Rightarrow> nat \<Rightarrow> int \<Rightarrow> fp list \<Rightarrow> error + (nat list \<times> rng)" where
  "np_random_choice rnd pop_size sz p =
     (if pop_size = 0 \<and> sz \<noteq> 0 then Inl ValueError
      else if length p \<noteq> pop_size then Inl ValueError
      else case fp_finite p of
             None \<Rightarrow> Inl ValueError
           | Some q \<Rightarrow>
               if list_ex (\<lambda>x. x < 0) q then Inl ValueError
               else if 1 / 2 ^ 23 < (sum_list q - 1) * (sum_list q - 1) then Inl ValueError
               else if int pop_size < sz then Inl ValueError
               else if sz < 0 then Inl ValueError
               else if int (length (filter (\<lambda>x. 0 < x) q)) < sz then Inl ValueError
               else Inr (choice_loop rnd q [] (nat sz)))"

section \<open>The registration service: the dataset wrapper\<close>

text \<open>
  A float32 array as \<^verbatim>\<open>np.asarray(v, dtype=np.float32)\<close> returns it: its shape and its
  entries in row-major order. The conversion itself is a parameter of the constructor:
  the source passes the value of the request to numpy unchanged, whatever it is.
\<close>

record ndarray =
  arr_shape :: "nat list"
  arr_data :: "rat list"

text \<open>\<^verbatim>\<open>ThreeDMatchDemo.__init__\<close>.\<close>

record ThreeDMatchDemo =
  self_src_pcd :: ndarray
  self_tgt_pcd :: ndarray

definition ThreeDMatchDemo_init ::
  "('v \<Rightarrow> error + ndarray) \<Rightarrow> 'v \<Rightarrow> 'v \<Rightarrow> error + ThreeDMatchDemo" where
  "ThreeDMatchDemo_init asarray src_points tgt_points =
     (case asarray src_points of
        Inl e \<Rightarrow> Inl e
      | Inr s \<Rightarrow>
          (case asarray tgt_points of
             Inl e \<Rightarrow> Inl e
           | Inr t \<Rightarrow> Inr \<lparr> self_src_pcd = s, self_tgt_pcd = t \<rparr>))"

text \<open>\<^verbatim>\<open>np.ones_like(a[:, :1])\<close>: indexing two axes of an array with fewer than two raises
  \<^verbatim>\<open>IndexError\<close>.\<close>

definition ones_like_first_column :: "ndarray \<Rightarrow> error + ndarray" where
  "ones_like_first_column a =
     (case arr_shape a of
        n # m # rest \<Rightarrow>
          Inr \<lparr> arr_shape = n # min 1 m # rest,
                arr_data = replicate (n * min 1 m * prod_list rest) 1 \<rparr>
      | _ \<Rightarrow> Inl IndexError)"

text \<open>\<^verbatim>\<open>ThreeDMatchDemo.__getitem__\<close>; the record holds the ten components of the tuple.\<close>

record demo_item =
  item_src_pcd :: ndarray
  item_tgt_pcd :: ndarray
  item_src_feats :: ndarray
  item_tgt_feats :: ndarray
  item_rot :: matrix
  item_trans :: matrix
  item_correspondences :: "int list list"
  item_src_raw :: ndarray
  item_tgt_raw :: ndarray
  item_scale :: "rat list"

definition ThreeDMatchDemo_getitem :: "ThreeDMatchDemo \<Rightarrow> error + demo_item" where
  "ThreeDMatchDemo_getitem self =
     (let src_pcd = self_src_pcd self;
          tgt_pcd = self_tgt_pcd self
      in case ones_like_first_column src_pcd of
           Inl e \<Rightarrow> Inl e
         | Inr src_feats \<Rightarrow>
             (case ones_like_first_column tgt_pcd of
                Inl e \<Rightarrow> Inl e
              | Inr tgt_feats \<Rightarrow>
                  Inr \<lparr> item_src_pcd = src_pcd, item_tgt_pcd = tgt_pcd,
                        item_src_feats = src_feats, item_tgt_feats = tgt_feats,
                        item_rot = eye 3, item_trans = [[1], [1], [1]],
                        item_correspondences = [[1, 1]],
                        item_src_raw = src_pcd, item_tgt_raw = tgt_pcd,
                        item_scale = [1] \<rparr>))"

section \<open>The registration service: the orchestrator\<close>

record config =
  n_points :: int

text \<open>The collated batch \<^verbatim>\<open>inputs\<close>, with the two entries the orchestrator reads: the
  stacked points and the stack lengths of every layer.\<close>

record batch =
  points :: "rat list list list"
  stack_lengths :: "int list list"

text \<open>The three outputs of the network, for the stacked source and target points.\<close>

record model_out =
  feats :: "rat list list"
  scores_overlap :: "rat list"
  scores_saliency :: "rat list"

text \<open>What \<^verbatim>\<open>ransac_pose_estimation\<close> returns when it is not \<^verbatim>\<open>None\<close>: a torch tensor,
  or something \<^verbatim>\<open>np.asarray\<close> accepts.\<close>

datatype tsfm = TorchTensor matrix | ArrayLike matrix

text \<open>
  The collaborators of \<^verbatim>\<open>predator_infer\<close> that are not part of the sources at hand, as
  parameters: \<open>np_asarray\<close> stands for \<^verbatim>\<open>np.asarray(v, dtype=np.float32)\<close> on a value \<open>v\<close>
  of the request (of any type \<open>'v\<close>), \<open>collate\<close> for the batching done by the loader that
  \<^verbatim>\<open>get_dataloader\<close> builds (applied to the item that \<^verbatim>\<open>__getitem__\<close> returns), \<open>model\<close> for
  \<^verbatim>\<open>config.model(inputs)\<close>, and \<open>ransac\<close> for \<^verbatim>\<open>ransac_pose_estimation\<close> with
  \<^verbatim>\<open>mutual=False\<close>. Each may raise.
\<close>

record 'v env =
  np_asarray :: "'v \<Rightarrow> error + ndarray"
  collate :: "demo_item \<Rightarrow> error + batch"
  model :: "batch \<Rightarrow> error + model_out"
  ransac :: "rat list list \<Rightarrow> rat list list \<Rightarrow> rat list list \<Rightarrow> rat list list
               \<Rightarrow> error + tsfm option"

text \<open>\<^verbatim>\<open>xs[0]\<close>.\<close>

definition first :: "'a list \<Rightarrow> error + 'a" where
  "first xs = (case xs of [] \<Rightarrow> Inl IndexError | x # _ \<Rightarrow> Inr x)"

text \<open>Lines 143 to 154 of \<^verbatim>\<open>predator_infer\<close>: every stacked array is cut at \<^verbatim>\<open>len_src\<close>.\<close>

record split_out =
  src_pcd :: "rat list list"
  tgt_pcd :: "rat list list"
  src_feats :: "rat list list"
  tgt_feats :: "rat list list"
  src_overlap :: "rat list"
  tgt_overlap :: "rat list"
  src_saliency :: "rat list"
  tgt_saliency :: "rat list"

definition split_outputs :: "rat list list \<Rightarrow> int \<Rightarrow> model_out \<Rightarrow> split_out" where
  "split_outputs pcd len_src out =
     \<lparr> src_pcd = slice_to len_src pcd,
       tgt_pcd = slice_from len_src pcd,
       src_feats = slice_to len_src (feats out),
       tgt_feats = slice_from len_src (feats out),
       src_overlap = slice_to len_src (scores_overlap out),
       tgt_overlap = slice_from len_src (scores_overlap out),
       src_saliency = slice_to len_src (scores_saliency out),
       tgt_saliency = slice_from len_src (scores_saliency out) \<rparr>"

text \<open>
  Lines 160 to 165 (source cloud) and 167 to 172 (target cloud), which are the same code:
  a cloud with more than \<^verbatim>\<open>config.n_points\<close> points is sampled, any other is left as it is.
\<close>

definition weighted_subsample ::
  "int \<Rightarrow> rng \<Rightarrow> 'a list \<Rightarrow> 'b list \<Rightarrow> rat list \<Rightarrow> error + ('a list \<times> 'b list \<times> rng)" where
  "weighted_subsample n_pts rnd pcd fts scores =
     (if n_pts < int (length pcd) then
        (case np_random_choice rnd (length pcd) n_pts (probs_of scores) of
           Inl e \<Rightarrow> Inl e
         | Inr (idx, rnd') \<Rightarrow>
             (case tensor_index pcd idx of
                Inl e \<Rightarrow> Inl e
              | Inr pcd' \<Rightarrow>
                  (case tensor_index fts idx of
                     Inl e \<Rightarrow> Inl e
                   | Inr fts' \<Rightarrow> Inr (pcd', fts', rnd'))))
      else Inr (pcd, fts, rnd))"

text \<open>Lines 156 to 172: the weights of either cloud, and the two clouds subsampled with
  them, the source cloud first.\<close>

definition sample_split ::
  "config \<Rightarrow> rng \<Rightarrow> split_out
     \<Rightarrow> error + (rat list list \<times> rat list list \<times> rat list list \<times> rat list list)" where
  "sample_split cfg rnd s =
     (case tensor_mul (src_overlap s) (src_saliency s) of
        Inl e \<Rightarrow> Inl e
      | Inr src_scores \<Rightarrow>
     (case tensor_mul (tgt_overlap s) (tgt_saliency s) of
        Inl e \<Rightarrow> Inl e
      | Inr tgt_scores \<Rightarrow>
     (case weighted_subsample (n_points cfg) rnd (src_pcd s) (src_feats s) src_scores of
        Inl e \<Rightarrow> Inl e
      | Inr (src_pcd', src_feats', rnd') \<Rightarrow>
     (case weighted_subsample (n_points cfg) rnd' (tgt_pcd s) (tgt_feats s) tgt_scores of
        Inl e \<Rightarrow> Inl e
      | Inr (tgt_pcd', tgt_feats', rnd'') \<Rightarrow>
          Inr (src_pcd', tgt_pcd', src_feats', tgt_feats')))))"

text \<open>Lines 140 to 172, from the batch and the outputs of the network to the arguments
  of the pose estimation: \<^verbatim>\<open>pcd = inputs["points"][0]\<close>,
  \<^verbatim>\<open>len_src = inputs["stack_lengths"][0][0]\<close>, the split and the sampling.\<close>

definition sample_batch ::
  "config \<Rightarrow> rng \<Rightarrow> batch \<Rightarrow> model_out
     \<Rightarrow> error + (rat list list \<times> rat list list \<times> rat list list \<times> rat list list)" where
  "sample_batch cfg rnd inputs out =
     (case first (points inputs) of
        Inl e \<Rightarrow> Inl e
      | Inr pcd \<Rightarrow>
     (case first (stack_lengths inputs) of
        Inl e \<Rightarrow> Inl e
      | Inr lengths \<Rightarrow>
     (case first lengths of
        Inl e \<Rightarrow> Inl e
      | Inr len_src \<Rightarrow> sample_split cfg rnd (split_outputs pcd len_src out))))"

text \<open>Lines 183 to 195: the response dictionary. Both branches of the \<^verbatim>\<open>isinstance\<close> test
  end in an array, whose \<^verbatim>\<open>tolist()\<close> is the list of its rows.\<close>

datatype jvalue = Null | Matrix "rat list list"

definition tolist :: "tsfm \<Rightarrow> rat list list" where
  "tolist t = (case t of TorchTensor m \<Rightarrow> m | ArrayLike m \<Rightarrow> m)"

definition package_result :: "tsfm option \<Rightarrow> (string \<times> jvalue) list" where
  "package_result t =
     (case t of
        None \<Rightarrow> [(''transform'', Null)]
      | Some m \<Rightarrow> [(''transform'', Matrix (tolist m))])"

text \<open>Lines 116 to 172 of \<^verbatim>\<open>predator_infer\<close>: the dataset, its single item (fetched by
  the loader when the batch is requested), the batch, the network and the sampling.\<close>

definition prepare ::
  "'v env \<Rightarrow> config \<Rightarrow> rng \<Rightarrow> 'v \<Rightarrow> 'v
     \<Rightarrow> error + (rat list list \<times> rat list list \<times> rat list list \<times> rat list list)" where
  "prepare env cfg rnd src_points tgt_points =
     (case ThreeDMatchDemo_init (np_asarray env) src_points tgt_points of
        Inl e \<Rightarrow> Inl e
      | Inr demo_set \<Rightarrow>
     (case ThreeDMatchDemo_getitem demo_set of
        Inl e \<Rightarrow> Inl e
      | Inr item \<Rightarrow>
     (case collate env item of
        Inl e \<Rightarrow> Inl e
      | Inr inputs \<Rightarrow>
     (case model env inputs of
        Inl e \<Rightarrow> Inl e
      | Inr out \<Rightarrow> sample_batch cfg rnd inputs out))))"

text \<open>\<^verbatim>\<open>predator_infer\<close>: the steps above, the pose estimation and the response.\<close>

definition predator_infer ::
  "'v env \<Rightarrow> config \<Rightarrow> rng \<Rightarrow> 'v \<Rightarrow> 'v \<Rightarrow> error + (string \<times> jvalue) list" where
  "predator_infer env cfg rnd src_points tgt_points =
     (case prepare env cfg rnd src_points tgt_points of
        Inl e \<Rightarrow> Inl e
      | Inr (src_pcd', tgt_pcd', src_feats', tgt_feats') \<Rightarrow>
     (case ransac env src_pcd' tgt_pcd' src_feats' tgt_feats' of
        Inl e \<Rightarrow> Inl e
      | Inr t \<Rightarrow> Inr (package_result t)))"

text \<open>
  Values for concrete runs. Six request values, named by the JSON text they stand for:
  \<^item> \<open>Empty_list\<close> is \<^verbatim>\<open>[]\<close>, which numpy converts to an array of shape \<open>(0,)\<close>;
  \<^item> \<open>Flat_point\<close> is \<^verbatim>\<open>[0, 0, 0]\<close>, of shape \<open>(3,)\<close>;
  \<^item> \<open>One_point\<close> is \<^verbatim>\<open>[[0, 1, 0]]\<close>, of shape \<open>(1, 3)\<close>;
  \<^item> \<open>Two_points\<close> is \<^verbatim>\<open>[[0, 0, 0], [1, 0, 0]]\<close>, of shape \<open>(2, 3)\<close>;
  \<^item> \<open>Planar_point\<close> is \<^verbatim>\<open>[[0, 1]]\<close>, of shape \<open>(1, 2)\<close>;
  \<^item> \<open>Ragged_points\<close> is \<^verbatim>\<open>[[0, 0, 0], [1]]\<close>, on which numpy raises \<^verbatim>\<open>ValueError\<close>.

  Then an environment whose conversion is numpy's on these six values and whose three
  other collaborators return fixed values; the batch of a source cloud of two points
  stacked on a target cloud of one point; and outputs of the network for it with given
  scores.
\<close>

datatype demo_cloud =
  Empty_list | Flat_point | One_point | Two_points | Planar_point | Ragged_points

fun demo_asarray :: "demo_cloud \<Rightarrow> error + ndarray" where
  "demo_asarray Empty_list = Inr \<lparr> arr_shape = [0], arr_data = [] \<rparr>"
| "demo_asarray Flat_point = Inr \<lparr> arr_shape = [3], arr_data = [0, 0, 0] \<rparr>"
| "demo_asarray One_point = Inr \<lparr> arr_shape = [1, 3], arr_data = [0, 1, 0] \<rparr>"
| "demo_asarray Two_points = Inr \<lparr> arr_shape = [2, 3], arr_data = [0, 0, 0, 1, 0, 0] \<rparr>"
| "demo_asarray Planar_point = Inr \<lparr> arr_shape = [1, 2], arr_data = [0, 1] \<rparr>"
| "demo_asarray Ragged_points = Inl ValueError"

definition fixed_env :: "batch \<Rightarrow> model_out \<Rightarrow> tsfm option \<Rightarrow> demo_cloud env" where
  "fixed_env b out t =
     \<lparr> np_asarray = demo_asarray,
       collate = (\<lambda>item. Inr b), model = (\<lambda>inputs. Inr out),
       ransac = (\<lambda>sp tp sf tf. Inr t) \<rparr>"

definition demo_src :: demo_cloud where
  "demo_src = Two_points"

definition demo_tgt :: demo_cloud where
  "demo_tgt = One_point"

definition demo_batch :: batch where
  "demo_batch = \<lparr> points = [[[0, 0, 0], [1, 0, 0], [0, 1, 0]]], stack_lengths = [[2, 1]] \<rparr>"

definition demo_out :: "rat list \<Rightarrow> rat list \<Rightarrow> model_out" where
  "demo_out ov sa = \<lparr> feats = [[1], [2], [3]], scores_overlap = ov, scores_saliency = sa \<rparr>"

section \<open>Verification: the visualizer\<close>

subsection \<open>Strided slices\<close>

lemma length_every_nth:
  "0 < d \<Longrightarrow> length (every_nth d xs) = (length xs + d - 1) div d"
proof (induction d xs rule: every_nth.induct)
  case (1 d)
  then show ?case by simp
next
  case (2 d x xs)
  show ?case
  proof (cases "d - 1 \<le> length xs")
    case True
    obtain k where k: "length xs = d - 1 + k"
      using True by (metis le_add_diff_inverse)
    have "(d - 1 + k + d) div d = Suc ((d - 1 + k) div d)"
      using 2(2) by (metis div_add_self2 less_numeral_extra(3) Suc_eq_plus1)
    moreover have "Suc (d - 1 + k) + d - 1 = d - 1 + k + d"
      using 2(2) by simp
    moreover have "k + d - 1 = d - 1 + k"
      using 2(2) by simp
    ultimately show ?thesis
      using 2 k by simp
  next
    case False
    then have "Suc (length xs) + d - 1 < 2 * d" and "d \<le> Suc (length xs) + d - 1"
      by simp_all
    then have "(Suc (length xs) + d - 1) div d = 1"
      by (simp add: div_nat_eqI)
    then show ?thesis
      using 2 False by simp
  qed
qed

lemma nth_every_nth:
  "0 < d \<Longrightarrow> i < length (every_nth d xs) \<Longrightarrow> every_nth d xs ! i = xs ! (i * d)"
proof (induction d xs arbitrary: i rule: every_nth.induct)
  case (1 d)
  then show ?case by simp
next
  case (2 d x xs)
  show ?case
  proof (cases i)
    case 0
    then show ?thesis by simp
  next
    case (Suc j)
    then have j: "j < length (every_nth d (drop (d - 1) xs))"
      using 2(3) by simp
    have ne: "drop (d - 1) xs \<noteq> []"
      using j by (cases "drop (d - 1) xs") auto
    then have le: "d - 1 < length xs"
      by simp
    have "every_nth d (drop (d - 1) xs) ! j = drop (d - 1) xs ! (j * d)"
      using 2(1)[OF 2(2) j] .
    also have "\<dots> = xs ! (d - 1 + j * d)"
      using le by simp
    also have "\<dots> = (x # xs) ! (Suc j * d)"
      using 2(2) by (cases d) (simp_all add: ac_simps)
    finally show ?thesis
      using Suc by simp
  qed
qed

lemma subseq_every_nth: "subseq (every_nth d xs) xs"
proof (induction d xs rule: every_nth.induct)
  case (1 d)
  then show ?case by simp
next
  case (2 d x xs)
  have "subseq (every_nth d (drop (d - 1) xs)) (take (d - 1) xs @ drop (d - 1) xs)"
    using 2 by (rule list_emb_append2)
  then show ?case by simp
qed

lemma ceil_div_nat:
  assumes "0 < d"
  shows "int ((n + d - 1) div d) = \<lceil>rat_of_nat n / rat_of_nat d\<rceil>"
proof -
  let ?z = "(n + d - 1) div d"
  have a: "?z * d \<le> n + d - 1" by simp
  have a': "n + d - 1 < n + d" using assms by arith
  have b: "n + d - 1 < (?z + 1) * d" 
    using assms  by (metis Suc_eq_plus1 dividend_less_div_times mult.commute mult_Suc)
  have 1: "n \<le> ?z * d" using b assms by simp
  have 2: "?z * d < n + d" using a a' by (rule le_less_trans)
  have "rat_of_nat n / rat_of_nat d \<le> rat_of_nat ?z"
    using 1 assms by (simp add: divide_le_eq flip: of_nat_mult)
  moreover have "rat_of_nat ?z - 1 < rat_of_nat n / rat_of_nat d"
  proof -
    have "rat_of_nat (?z * d) < rat_of_nat (n + d)"
      using 2 by (simp only: of_nat_less_iff)
    then have "rat_of_nat ?z * rat_of_nat d < rat_of_nat n + rat_of_nat d"
      by simp
    then have "(rat_of_nat ?z - 1) * rat_of_nat d < rat_of_nat n"
      by (simp add: algebra_simps)
    then show ?thesis
      using assms by (simp add: less_divide_eq)
  qed
  ultimately show ?thesis
    by (metis ceiling_unique of_int_of_nat_eq)
qed

subsection \<open>Downsampling\<close>

lemma slice_step_pos:
  assumes "1 \<le> d"
  shows "slice_step d xs = Inr (every_nth (nat d) xs)"
    and "int (length (every_nth (nat d) xs)) = \<lceil>rat_of_nat (length xs) / rat_of_int d\<rceil>"
    and "\<forall>i<length (every_nth (nat d) xs). every_nth (nat d) xs ! i = xs ! (i * nat d)"
    and "subseq (every_nth (nat d) xs) xs"
proof -
  have d: "0 < nat d" using assms by simp
  show "slice_step d xs = Inr (every_nth (nat d) xs)"
    using assms by (simp add: slice_step_def)
  have "int (length (every_nth (nat d) xs))
          = \<lceil>rat_of_nat (length xs) / rat_of_nat (nat d)\<rceil>"
    by (simp only: length_every_nth[OF d] ceil_div_nat[OF d])
  moreover have "rat_of_nat (nat d) = rat_of_int d"
    using assms by simp
  ultimately show "int (length (every_nth (nat d) xs))
          = \<lceil>rat_of_nat (length xs) / rat_of_int d\<rceil>"
    by (simp only:)
  show "\<forall>i<length (every_nth (nat d) xs). every_nth (nat d) xs ! i = xs ! (i * nat d)"
    using nth_every_nth[OF d] by blast
  show "subseq (every_nth (nat d) xs) xs"
    by (rule subseq_every_nth)
qed

text \<open>
  Claim C10. For a downsample factor \<open>d \<ge> 1\<close> the slices raise nothing, and each of the
  two downsampled clouds has \<open>ceil (N / d)\<close> points, where \<open>N\<close> is the size of the cloud
  before downsampling (the source or the target part of the stacked cloud); its point
  \<open>i\<close> is the original point \<open>i * d\<close>, and it is a subsequence of the original cloud, in
  the original order.
\<close>

theorem downsample_stride:
  assumes "1 \<le> d"
  shows "\<exists>src_points tgt_points.
           downsample_clouds pcd len_src d
             = Inr (slice_to len_src pcd, slice_from len_src pcd, src_points, tgt_points)
           \<and> int (length src_points)
               = \<lceil>rat_of_nat (length (slice_to len_src pcd)) / rat_of_int d\<rceil>
           \<and> (\<forall>i<length src_points. src_points ! i = slice_to len_src pcd ! (i * nat d))
           \<and> subseq src_points (slice_to len_src pcd)
           \<and> int (length tgt_points)
               = \<lceil>rat_of_nat (length (slice_from len_src pcd)) / rat_of_int d\<rceil>
           \<and> (\<forall>i<length tgt_points. tgt_points ! i = slice_from len_src pcd ! (i * nat d))
           \<and> subseq tgt_points (slice_from len_src pcd)"
  using slice_step_pos[OF assms, of "slice_to len_src pcd"]
        slice_step_pos[OF assms, of "slice_from len_src pcd"]
  by (simp add: downsample_clouds_def Let_def)

text \<open>Claim C10 on five points, the first three of them the source cloud, and
  \<open>d = 2\<close>.\<close>

theorem downsample_stride_witness:
  "(1::int) \<le> 2 \<and>
   downsample_clouds [[0, 0, 0], [1, 1, 1], [2, 2, 2], [3, 3, 3], [4, 4, 4 :: rat]] 3 2
     = Inr ([[0, 0, 0], [1, 1, 1], [2, 2, 2]], [[3, 3, 3], [4, 4, 4]],
            [[0, 0, 0], [2, 2, 2]], [[3, 3, 3]])
   \<and> int (length [[0, 0, 0], [2, 2, 2 :: rat]]) = \<lceil>rat_of_nat 3 / rat_of_int 2\<rceil>
   \<and> int (length [[3, 3, 3 :: rat]]) = \<lceil>rat_of_nat 2 / rat_of_int 2\<rceil>"
proof -
  have h: "(1::int) \<le> 2" by simp
  have e: "every_nth 2 [[0, 0, 0], [1, 1, 1], [2, 2, 2::rat]] = [[0, 0, 0], [2, 2, 2]]"
          "every_nth 2 [[3, 3, 3], [4, 4, 4::rat]] = [[3, 3, 3]]"
    by simp_all
  from downsample_stride[where d = 2
      and pcd = "[[0, 0, 0], [1, 1, 1], [2, 2, 2], [3, 3, 3], [4, 4, 4 :: rat]]"
      and len_src = 3, OF h]
  show ?thesis
    by (simp add: downsample_clouds_def Let_def slice_to_def slice_from_def slice_step_def e)
qed

section \<open>Verification: the sampling\<close>

subsection \<open>Zeroing, cumulative sums and one draw\<close>











subsection \<open>The sampling loop\<close>






subsection \<open>The checks of the sampling\<close>


lemma fp_finite_div0:
  "ws \<noteq> [] \<Longrightarrow> fp_finite (map (\<lambda>w. fp_div w 0) ws) = None"
  by (cases ws) (simp_all add: fp_div_def)


lemma choice_zero_sum:
  assumes "sum_list scores = 0" and "K < int N"
  shows "np_random_choice rnd N K (probs_of scores) = Inl ValueError"
proof (cases "N = 0 \<or> length scores \<noteq> N")
  case True
  then show ?thesis
    using assms(2) by (auto simp: np_random_choice_def probs_of_def)
next
  case False
  then have "scores \<noteq> []"
    by auto
  then have "fp_finite (probs_of scores) = None"
    using assms(1) by (simp add: probs_of_def fp_finite_div0)
  then show ?thesis
    by (simp add: np_random_choice_def)
qed




subsection \<open>The subsampling step\<close>

text \<open>
  Claim C1, as the code has it. When the combined weights of a cloud sum to 0 and the
  cloud has more points than the target size, the subsampling step raises
  \<^verbatim>\<open>ValueError\<close>: the division by the zero sum yields probabilities that are not finite,
  and \<^verbatim>\<open>np.random.choice\<close> refuses them. There is no fallback to uniform probabilities.
\<close>

theorem zero_sum_sampling_fails:
  assumes "sum_list scores = 0" and "n_pts < int (length pcd)"
  shows "weighted_subsample n_pts rnd pcd fts scores = Inl ValueError"
  using choice_zero_sum[OF assms] assms(2) by (simp add: weighted_subsample_def)

text \<open>Claim C1 as amended, on three points of weight 0 and the target size 2.\<close>

theorem zero_sum_sampling_fails_witness:
  "sum_list [0, 0, 0 :: rat] = 0
   \<and> (2::int) < int (length [[0, 0, 0], [1, 0, 0], [0, 1, 0 :: rat]])
   \<and> weighted_subsample 2 (\<lambda>i. 0) [[0, 0, 0], [1, 0, 0], [0, 1, 0 :: rat]]
         [[1], [2], [3 :: rat]] [0, 0, 0] = Inl ValueError"
  using zero_sum_sampling_fails[of "[0, 0, 0]" 2 "[[0, 0, 0], [1, 0, 0], [0, 1, 0 :: rat]]"
      "\<lambda>i. 0" "[[1], [2], [3 :: rat]]"]
  by simp

text \<open>
  Claim C1 as stated (the step succeeds with uniform probabilities and returns \<open>K\<close>
  distinct indices) fails on two points of weight 0 and the target size 1: the
  probabilities are NaN and the step raises.
\<close>

theorem zero_sum_fallback_counterexample:
  "sum_list [0, 0 :: rat] = 0
   \<and> (1::int) < int (length [[0, 0, 0], [1, 1, 1 :: rat]])
   \<and> probs_of [0, 0] = [NaN, NaN]
   \<and> weighted_subsample 1 (\<lambda>i. 0) [[0, 0, 0], [1, 1, 1 :: rat]] [[1], [2 :: rat]] [0, 0]
       = Inl ValueError"
  by (simp add: weighted_subsample_def np_random_choice_def probs_of_def fp_div_def)








section \<open>Verification: the orchestrator\<close>

subsection \<open>Splitting and combining\<close>


lemma length_slice_from: "length (slice_from n xs) = length xs - length (slice_to n xs)"
  by (simp add: slice_to_def slice_from_def)

lemma slice_to_length_eq:
  "length xs = length ys \<Longrightarrow> length (slice_to n xs) = length (slice_to n ys)"
  by (simp add: slice_to_def)

lemma take_min_length: "take (min (length xs) m) xs = take m xs"
  by (cases "m \<le> length xs") (simp_all add: min_def)

lemma drop_min_length: "drop (min (length xs) m) xs = drop m xs"
  by (cases "m \<le> length xs") (simp_all add: min_def)

lemma slice_to_take:
  "length xs = N \<Longrightarrow>
   slice_to n xs = take (min N (nat (if n < 0 then int N + n else n))) xs"
  by (auto simp: slice_to_def take_min_length)

lemma slice_from_drop:
  "length xs = N \<Longrightarrow>
   slice_from n xs = drop (min N (nat (if n < 0 then int N + n else n))) xs"
  by (auto simp: slice_from_def drop_min_length)

lemma sample_batch_split:
  assumes "points inputs = pcd # ps" and "stack_lengths inputs = (len_src # ls) # lss"
  shows "sample_batch cfg rnd inputs out = sample_split cfg rnd (split_outputs pcd len_src out)"
  using assms by (simp add: sample_batch_def first_def)

lemma first_error: "first xs = Inl e \<Longrightarrow> e = IndexError"
  by (simp add: first_def split: list.splits)

lemma tensor_mul_error: "tensor_mul a b = Inl e \<Longrightarrow> e = RuntimeError"
  by (simp add: tensor_mul_def split: if_splits)

lemma tensor_index_error: "tensor_index t idx = Inl e \<Longrightarrow> e = IndexError"
  by (simp add: tensor_index_def split: if_splits)

lemma np_random_choice_error: "np_random_choice rnd n sz p = Inl e \<Longrightarrow> e = ValueError"
  by (simp add: np_random_choice_def split: if_splits option.splits)

lemma weighted_subsample_error:
  "weighted_subsample n_pts rnd pcd fts scores = Inl e \<Longrightarrow> e = ValueError \<or> e = IndexError"
  by (auto simp: weighted_subsample_def split: if_splits sum.splits prod.splits
      dest: np_random_choice_error tensor_index_error)

lemma sample_split_error:
  "sample_split cfg rnd s = Inl e \<Longrightarrow> e = RuntimeError \<or> e = ValueError \<or> e = IndexError"
  by (auto simp: sample_split_def split: sum.splits prod.splits
      dest: tensor_mul_error weighted_subsample_error)

lemma sample_batch_error:
  "sample_batch cfg rnd inputs out = Inl e \<Longrightarrow>
   e = RuntimeError \<or> e = ValueError \<or> e = IndexError"
  by (auto simp: sample_batch_def split: sum.splits
      dest: first_error sample_split_error)

text \<open>
  Claim C8. Let \<open>pcd\<close> be the first entry of the stacked points of the batch and
  \<open>len_src\<close> the first stack length of its first layer, and let the network return one
  feature vector and one score of each kind for every point of \<open>pcd\<close>. Then what the
  orchestrator samples from is the split of the four stacked arrays at one common index
  \<open>k\<close>, which is \<open>len_src\<close> whenever \<open>0 \<le> len_src \<le> length pcd\<close> (and what Python's
  slices make of \<open>len_src\<close> otherwise): every source part is the first \<open>k\<close> entries of its
  array and every target part the rest. So the source part followed by the target part
  is the stacked array again, and every point of either part keeps its own feature
  vector, overlap score and saliency score.
\<close>

theorem split_preserves_attachment:
  assumes "points inputs = pcd # ps" and "stack_lengths inputs = (len_src # ls) # lss"
    and "length (feats out) = length pcd"
    and "length (scores_overlap out) = length pcd"
    and "length (scores_saliency out) = length pcd"
  shows "let s = split_outputs pcd len_src out;
             k = min (length pcd)
                     (nat (if len_src < 0 then int (length pcd) + len_src else len_src))
         in sample_batch cfg rnd inputs out = sample_split cfg rnd s
         \<and> (0 \<le> len_src \<and> len_src \<le> int (length pcd) \<longrightarrow> k = nat len_src)
         \<and> src_pcd s = take k pcd \<and> tgt_pcd s = drop k pcd
         \<and> src_feats s = take k (feats out) \<and> tgt_feats s = drop k (feats out)
         \<and> src_overlap s = take k (scores_overlap out)
         \<and> tgt_overlap s = drop k (scores_overlap out)
         \<and> src_saliency s = take k (scores_saliency out)
         \<and> tgt_saliency s = drop k (scores_saliency out)
         \<and> src_pcd s @ tgt_pcd s = pcd
         \<and> src_feats s @ tgt_feats s = feats out
         \<and> src_overlap s @ tgt_overlap s = scores_overlap out
         \<and> src_saliency s @ tgt_saliency s = scores_saliency out
         \<and> (\<forall>i<k. src_pcd s ! i = pcd ! i
                 \<and> src_feats s ! i = feats out ! i
                 \<and> src_overlap s ! i = scores_overlap out ! i
                 \<and> src_saliency s ! i = scores_saliency out ! i)
         \<and> (\<forall>j<length pcd - k. tgt_pcd s ! j = pcd ! (k + j)
                 \<and> tgt_feats s ! j = feats out ! (k + j)
                 \<and> tgt_overlap s ! j = scores_overlap out ! (k + j)
                 \<and> tgt_saliency s ! j = scores_saliency out ! (k + j))"
proof -
  define k where
    "k = min (length pcd) (nat (if len_src < 0 then int (length pcd) + len_src else len_src))"
  have k: "k \<le> length pcd"
    by (simp add: k_def)
  have s: "split_outputs pcd len_src out
      = \<lparr> src_pcd = take k pcd, tgt_pcd = drop k pcd,
          src_feats = take k (feats out), tgt_feats = drop k (feats out),
          src_overlap = take k (scores_overlap out),
          tgt_overlap = drop k (scores_overlap out),
          src_saliency = take k (scores_saliency out),
          tgt_saliency = drop k (scores_saliency out) \<rparr>"
    unfolding split_outputs_def k_def
    by (simp only: slice_to_take[OF refl, where xs = pcd] slice_from_drop[OF refl, where xs = pcd]
        slice_to_take[OF assms(3)] slice_from_drop[OF assms(3)]
        slice_to_take[OF assms(4)] slice_from_drop[OF assms(4)]
        slice_to_take[OF assms(5)] slice_from_drop[OF assms(5)])
  have r: "0 \<le> len_src \<and> len_src \<le> int (length pcd) \<longrightarrow> k = nat len_src"
    by (auto simp: k_def min_def)
  have b: "sample_batch cfg rnd inputs out
      = sample_split cfg rnd (split_outputs pcd len_src out)"
    using assms(1,2) by (rule sample_batch_split)
  show ?thesis
    unfolding Let_def k_def[symmetric]
    using k r b assms(3-5) by (simp add: s)
qed

text \<open>Claim C8 on three stacked points cut at 2.\<close>

theorem split_preserves_attachment_witness:
  "points demo_batch = [[0, 0, 0], [1, 0, 0], [0, 1, 0]] # []
   \<and> stack_lengths demo_batch = (2 # [1]) # []
   \<and> length (feats (demo_out [1 / 2, 1 / 4, 1 / 8] [1, 1 / 2, 0]))
       = length [[0, 0, 0], [1, 0, 0], [0, 1, 0 :: rat]]
   \<and> split_outputs [[0, 0, 0], [1, 0, 0], [0, 1, 0]] 2
         (demo_out [1 / 2, 1 / 4, 1 / 8] [1, 1 / 2, 0])
       = \<lparr> src_pcd = [[0, 0, 0], [1, 0, 0]], tgt_pcd = [[0, 1, 0]],
           src_feats = [[1], [2]], tgt_feats = [[3]],
           src_overlap = [1 / 2, 1 / 4], tgt_overlap = [1 / 8],
           src_saliency = [1, 1 / 2], tgt_saliency = [0] \<rparr>
   \<and> sample_batch \<lparr> n_points = 1000 \<rparr> (\<lambda>i. 0) demo_batch
         (demo_out [1 / 2, 1 / 4, 1 / 8] [1, 1 / 2, 0])
       = sample_split \<lparr> n_points = 1000 \<rparr> (\<lambda>i. 0)
           \<lparr> src_pcd = [[0, 0, 0], [1, 0, 0]], tgt_pcd = [[0, 1, 0]],
             src_feats = [[1], [2]], tgt_feats = [[3]],
             src_overlap = [1 / 2, 1 / 4], tgt_overlap = [1 / 8],
             src_saliency = [1, 1 / 2], tgt_saliency = [0] \<rparr>"
  using split_preserves_attachment[of demo_batch "[[0, 0, 0], [1, 0, 0], [0, 1, 0]]" "[]"
      2 "[1]" "[]" "demo_out [1 / 2, 1 / 4, 1 / 8] [1, 1 / 2, 0]"
      "\<lparr> n_points = 1000 \<rparr>" "\<lambda>i. 0"]
  by (simp add: Let_def demo_batch_def demo_out_def split_outputs_def slice_to_def
      slice_from_def)





text \<open>
  Claim C6, as the code has it. The orchestrator multiplies the scores and samples
  without any check of their range. With as many overlap scores as saliency scores and
  no cloud larger than the target size, it returns the two clouds and their feature
  vectors as they were split, whatever the scores are. When the overlap scores and the
  saliency scores of the source cloud differ in number, and neither number is 1, torch
  raises \<^verbatim>\<open>RuntimeError\<close>; so it does for the target cloud when the product for the source
  cloud was formed. No input yields \<^verbatim>\<open>InvalidScoreError\<close>.
\<close>

theorem combiner_does_not_validate:
  assumes "points inputs = pcd # ps" and "stack_lengths inputs = (len_src # ls) # lss"
  shows "let s = split_outputs pcd len_src out
         in (length (scores_overlap out) = length (scores_saliency out)
               \<and> int (length (src_pcd s)) \<le> n_points cfg
               \<and> int (length (tgt_pcd s)) \<le> n_points cfg
             \<longrightarrow> sample_batch cfg rnd inputs out
                   = Inr (src_pcd s, tgt_pcd s, src_feats s, tgt_feats s))
         \<and> (length (src_overlap s) \<noteq> length (src_saliency s)
               \<and> length (src_overlap s) \<noteq> 1 \<and> length (src_saliency s) \<noteq> 1
             \<longrightarrow> sample_batch cfg rnd inputs out = Inl RuntimeError)
         \<and> (length (src_overlap s) = length (src_saliency s)
               \<and> length (tgt_overlap s) \<noteq> length (tgt_saliency s)
               \<and> length (tgt_overlap s) \<noteq> 1 \<and> length (tgt_saliency s) \<noteq> 1
             \<longrightarrow> sample_batch cfg rnd inputs out = Inl RuntimeError)
         \<and> sample_batch cfg rnd inputs out \<noteq> Inl InvalidScoreError"
proof -
  let ?s = "split_outputs pcd len_src out"
  have b: "sample_batch cfg rnd inputs out = sample_split cfg rnd ?s"
    using assms by (rule sample_batch_split)
  have 1: "sample_batch cfg rnd inputs out
            = Inr (src_pcd ?s, tgt_pcd ?s, src_feats ?s, tgt_feats ?s)"
    if h: "length (scores_overlap out) = length (scores_saliency out)
           \<and> int (length (src_pcd ?s)) \<le> n_points cfg
           \<and> int (length (tgt_pcd ?s)) \<le> n_points cfg"
  proof -
    have l1: "length (slice_to len_src (scores_overlap out))
         = length (slice_to len_src (scores_saliency out))"
      using h by (intro slice_to_length_eq) simp
    have l2: "length (slice_from len_src (scores_overlap out))
         = length (slice_from len_src (scores_saliency out))"
      using h l1 by (simp add: length_slice_from)
    show ?thesis
      unfolding b using h l1 l2
      by (simp add: sample_split_def split_outputs_def tensor_mul_def weighted_subsample_def)
  qed
  have 2: "sample_batch cfg rnd inputs out = Inl RuntimeError"
    if "length (src_overlap ?s) \<noteq> length (src_saliency ?s)
        \<and> length (src_overlap ?s) \<noteq> 1 \<and> length (src_saliency ?s) \<noteq> 1"
    unfolding b using that by (simp add: sample_split_def tensor_mul_def)
  have 3: "sample_batch cfg rnd inputs out = Inl RuntimeError"
    if "length (src_overlap ?s) = length (src_saliency ?s)
        \<and> length (tgt_overlap ?s) \<noteq> length (tgt_saliency ?s)
        \<and> length (tgt_overlap ?s) \<noteq> 1 \<and> length (tgt_saliency ?s) \<noteq> 1"
    unfolding b using that by (simp add: sample_split_def tensor_mul_def)
  have 4: "sample_batch cfg rnd inputs out \<noteq> Inl InvalidScoreError"
    using sample_batch_error[of cfg rnd inputs out InvalidScoreError] by auto
  show ?thesis
    unfolding Let_def using 1 2 3 4 by blast
qed

text \<open>Claim C6 as amended: on three stacked points with the overlap score 3 and the
  saliency score -1 among the scores; and on four stacked points, three of them the
  source cloud, with four overlap scores and two saliency scores.\<close>

theorem combiner_does_not_validate_witness:
  "points demo_batch = [[0, 0, 0], [1, 0, 0], [0, 1, 0]] # []
   \<and> stack_lengths demo_batch = (2 # [1]) # []
   \<and> sample_batch \<lparr> n_points = 1000 \<rparr> (\<lambda>i. 0) demo_batch (demo_out [1 / 2, 3, 1] [1, - 1, 0])
       = Inr ([[0, 0, 0], [1, 0, 0]], [[0, 1, 0]], [[1], [2]], [[3]])
   \<and> sample_batch \<lparr> n_points = 1000 \<rparr> (\<lambda>i. 0)
         \<lparr> points = [[[0, 0, 0], [1, 0, 0], [0, 1, 0], [0, 0, 1]]], stack_lengths = [[3, 1]] \<rparr>
         \<lparr> feats = [[1], [2], [3], [4]], scores_overlap = [1, 1, 1, 1],
           scores_saliency = [1, 1] \<rparr>
       = Inl RuntimeError"
proof -
  let ?b = "\<lparr> points = [[[0, 0, 0], [1, 0, 0], [0, 1, 0], [0, 0, 1]]],
              stack_lengths = [[3, 1]] \<rparr>"
  let ?o = "\<lparr> feats = [[1], [2], [3], [4]], scores_overlap = [1, 1, 1, 1],
              scores_saliency = [1, 1] \<rparr>"
  have a: "sample_batch \<lparr> n_points = 1000 \<rparr> (\<lambda>i. 0) demo_batch
      (demo_out [1 / 2, 3, 1] [1, - 1, 0])
       = Inr ([[0, 0, 0], [1, 0, 0]], [[0, 1, 0]], [[1], [2]], [[3]])"
    using combiner_does_not_validate[of demo_batch "[[0, 0, 0], [1, 0, 0], [0, 1, 0]]" "[]"
      2 "[1]" "[]" "demo_out [1 / 2, 3, 1] [1, - 1, 0]" "\<lparr> n_points = 1000 \<rparr>" "\<lambda>i. 0"]
    by (simp add: Let_def demo_batch_def demo_out_def split_outputs_def slice_to_def
        slice_from_def)
  have b: "sample_batch \<lparr> n_points = 1000 \<rparr> (\<lambda>i. 0) ?b ?o = Inl RuntimeError"
    using combiner_does_not_validate[of ?b "[[0, 0, 0], [1, 0, 0], [0, 1, 0], [0, 0, 1]]" "[]"
      3 "[1]" "[]" ?o "\<lparr> n_points = 1000 \<rparr>" "\<lambda>i. 0"]
    by (simp add: Let_def split_outputs_def slice_to_def slice_from_def)
  show ?thesis
    using a b by (simp add: demo_batch_def)
qed

text \<open>
  Claim C6 as stated fails. Scores outside \<open>[0, 1]\<close> (the overlap score 2, the saliency
  score -1) do not make the orchestrator fail: the weights are 1 and -1, and the clouds
  are returned. And three overlap scores with two saliency scores do not make it fail
  either: cut at 2, the source parts have two scores each, and the one overlap score of
  the target cloud is broadcast against no saliency score.
\<close>

theorem out_of_range_score_counterexample:
  "\<not> ((2 :: rat) \<le> 1) \<and> \<not> ((0 :: rat) \<le> - 1)
   \<and> sample_batch \<lparr> n_points = 1000 \<rparr> (\<lambda>i. 0) demo_batch (demo_out [2, 1, 1] [1 / 2, - 1, 1])
       = Inr ([[0, 0, 0], [1, 0, 0]], [[0, 1, 0]], [[1], [2]], [[3]])
   \<and> tensor_mul [2, 1] [1 / 2, - 1] = Inr [1, - 1]
   \<and> length (scores_overlap (demo_out [1, 1, 1] [1, 1]))
       \<noteq> length (scores_saliency (demo_out [1, 1, 1] [1, 1]))
   \<and> sample_batch \<lparr> n_points = 1000 \<rparr> (\<lambda>i. 0) demo_batch (demo_out [1, 1, 1] [1, 1])
       = Inr ([[0, 0, 0], [1, 0, 0]], [[0, 1, 0]], [[1], [2]], [[3]])"
  by (simp add: sample_batch_def sample_split_def demo_batch_def demo_out_def first_def
      split_outputs_def slice_to_def slice_from_def tensor_mul_def weighted_subsample_def)

subsection \<open>Requests and responses\<close>

lemma ones_like_error: "ones_like_first_column a = Inl e \<Longrightarrow> e = IndexError"
  by (auto simp: ones_like_first_column_def split: list.splits)

lemma getitem_few_axes:
  assumes "length (arr_shape (self_src_pcd d)) < 2 \<or> length (arr_shape (self_tgt_pcd d)) < 2"
  shows "ThreeDMatchDemo_getitem d = Inl IndexError"
proof (cases "length (arr_shape (self_src_pcd d)) < 2")
  case True
  then have "ones_like_first_column (self_src_pcd d) = Inl IndexError"
    by (cases "arr_shape (self_src_pcd d)"; cases "tl (arr_shape (self_src_pcd d))")
       (simp_all add: ones_like_first_column_def)
  then show ?thesis
    by (simp add: ThreeDMatchDemo_getitem_def Let_def)
next
  case False
  with assms have t: "length (arr_shape (self_tgt_pcd d)) < 2"
    by simp
  then have "ones_like_first_column (self_tgt_pcd d) = Inl IndexError"
    by (cases "arr_shape (self_tgt_pcd d)"; cases "tl (arr_shape (self_tgt_pcd d))")
       (simp_all add: ones_like_first_column_def)
  then show ?thesis
    using ones_like_error[of "self_src_pcd d"]
    by (simp add: ThreeDMatchDemo_getitem_def Let_def split: sum.splits)
qed

lemma getitem_two_axes:
  assumes "2 \<le> length (arr_shape a)" and "2 \<le> length (arr_shape b)"
  shows "\<exists>item. ThreeDMatchDemo_getitem \<lparr> self_src_pcd = a, self_tgt_pcd = b \<rparr> = Inr item
           \<and> item_src_pcd item = a \<and> item_tgt_pcd item = b"
proof -
  obtain n m rest where a: "arr_shape a = n # m # rest"
    using assms(1) by (cases "arr_shape a"; cases "tl (arr_shape a)") auto
  obtain n' m' rest' where b: "arr_shape b = n' # m' # rest'"
    using assms(2) by (cases "arr_shape b"; cases "tl (arr_shape b)") auto
  show ?thesis
    by (simp add: ThreeDMatchDemo_getitem_def ones_like_first_column_def a b Let_def)
qed

text \<open>
  Claim C5, as the code has it. When \<^verbatim>\<open>np.asarray\<close> raises on the source cloud,
  \<^verbatim>\<open>predator_infer\<close> raises the same exception; so it does when the source cloud
  converts and \<^verbatim>\<open>np.asarray\<close> raises on the target cloud. When both clouds convert and
  one of the arrays has fewer than two axes, \<^verbatim>\<open>predator_infer\<close> raises \<^verbatim>\<open>IndexError\<close>,
  from the item of the dataset. All of this holds whatever the batching, the network
  and the pose estimation are, so before any of them is used, and nothing is tried
  again. When both clouds convert to arrays of at least two axes, the wrapper rejects
  nothing: the item holds the two arrays as they are, and the batching is the next step.
\<close>

theorem empty_or_flat_cloud_fails_early:
  "(np_asarray env src = Inl e \<longrightarrow> predator_infer env cfg rnd src tgt = Inl e)
   \<and> (np_asarray env src = Inr a \<and> np_asarray env tgt = Inl e
      \<longrightarrow> predator_infer env cfg rnd src tgt = Inl e)
   \<and> (np_asarray env src = Inr a \<and> np_asarray env tgt = Inr b
        \<and> (length (arr_shape a) < 2 \<or> length (arr_shape b) < 2)
      \<longrightarrow> predator_infer env cfg rnd src tgt = Inl IndexError)
   \<and> (np_asarray env src = Inr a \<and> np_asarray env tgt = Inr b
        \<and> 2 \<le> length (arr_shape a) \<and> 2 \<le> length (arr_shape b)
      \<longrightarrow> (\<exists>item. ThreeDMatchDemo_getitem \<lparr> self_src_pcd = a, self_tgt_pcd = b \<rparr> = Inr item
               \<and> item_src_pcd item = a \<and> item_tgt_pcd item = b
               \<and> prepare env cfg rnd src tgt
                   = (case collate env item of
                        Inl e \<Rightarrow> Inl e
                      | Inr inputs \<Rightarrow>
                          (case model env inputs of
                             Inl e \<Rightarrow> Inl e
                           | Inr out \<Rightarrow> sample_batch cfg rnd inputs out))))"
proof (intro conjI impI)
  assume "np_asarray env src = Inl e"
  then show "predator_infer env cfg rnd src tgt = Inl e"
    by (simp add: predator_infer_def prepare_def ThreeDMatchDemo_init_def)
next
  assume "np_asarray env src = Inr a \<and> np_asarray env tgt = Inl e"
  then show "predator_infer env cfg rnd src tgt = Inl e"
    by (simp add: predator_infer_def prepare_def ThreeDMatchDemo_init_def)
next
  assume h: "np_asarray env src = Inr a \<and> np_asarray env tgt = Inr b
        \<and> (length (arr_shape a) < 2 \<or> length (arr_shape b) < 2)"
  let ?d = "\<lparr> self_src_pcd = a, self_tgt_pcd = b \<rparr>"
  have "ThreeDMatchDemo_init (np_asarray env) src tgt = Inr ?d"
    using h by (simp add: ThreeDMatchDemo_init_def)
  moreover have "ThreeDMatchDemo_getitem ?d = Inl IndexError"
    using h by (intro getitem_few_axes) simp
  ultimately show "predator_infer env cfg rnd src tgt = Inl IndexError"
    by (simp add: predator_infer_def prepare_def)
next
  assume h: "np_asarray env src = Inr a \<and> np_asarray env tgt = Inr b
        \<and> 2 \<le> length (arr_shape a) \<and> 2 \<le> length (arr_shape b)"
  let ?d = "\<lparr> self_src_pcd = a, self_tgt_pcd = b \<rparr>"
  have i: "ThreeDMatchDemo_init (np_asarray env) src tgt = Inr ?d"
    using h by (simp add: ThreeDMatchDemo_init_def)
  obtain item where g: "ThreeDMatchDemo_getitem ?d = Inr item"
    and s: "item_src_pcd item = a" "item_tgt_pcd item = b"
    using getitem_two_axes[of a b] h by blast
  have "prepare env cfg rnd src tgt
      = (case collate env item of
           Inl e \<Rightarrow> Inl e
         | Inr inputs \<Rightarrow>
             (case model env inputs of
                Inl e \<Rightarrow> Inl e
              | Inr out \<Rightarrow> sample_batch cfg rnd inputs out))"
    by (simp add: prepare_def i g)
  with g s show "\<exists>item. ThreeDMatchDemo_getitem ?d = Inr item
               \<and> item_src_pcd item = a \<and> item_tgt_pcd item = b
               \<and> prepare env cfg rnd src tgt
                   = (case collate env item of
                        Inl e \<Rightarrow> Inl e
                      | Inr inputs \<Rightarrow>
                          (case model env inputs of
                             Inl e \<Rightarrow> Inl e
                           | Inr out \<Rightarrow> sample_batch cfg rnd inputs out))"
    by blast
qed

text \<open>Claim C5 as amended: on the empty list as the source cloud (an array of shape
  \<open>(0,)\<close>), on a target cloud that is a single point given as a flat list, and on a cloud
  whose two points differ in length, as the source and as the target.\<close>

theorem empty_or_flat_cloud_fails_early_witness:
  "np_asarray (fixed_env demo_batch (demo_out [1, 1, 1] [1, 1, 1]) None) Empty_list
     = Inr \<lparr> arr_shape = [0], arr_data = [] \<rparr>
   \<and> np_asarray (fixed_env demo_batch (demo_out [1, 1, 1] [1, 1, 1]) None) demo_tgt
     = Inr \<lparr> arr_shape = [1, 3], arr_data = [0, 1, 0] \<rparr>
   \<and> predator_infer (fixed_env demo_batch (demo_out [1, 1, 1] [1, 1, 1]) None)
        \<lparr> n_points = 1000 \<rparr> (\<lambda>i. 0) Empty_list demo_tgt = Inl IndexError
   \<and> np_asarray (fixed_env demo_batch (demo_out [1, 1, 1] [1, 1, 1]) None) demo_src
     = Inr \<lparr> arr_shape = [2, 3], arr_data = [0, 0, 0, 1, 0, 0] \<rparr>
   \<and> np_asarray (fixed_env demo_batch (demo_out [1, 1, 1] [1, 1, 1]) None) Flat_point
     = Inr \<lparr> arr_shape = [3], arr_data = [0, 0, 0] \<rparr>
   \<and> predator_infer (fixed_env demo_batch (demo_out [1, 1, 1] [1, 1, 1]) None)
        \<lparr> n_points = 1000 \<rparr> (\<lambda>i. 0) demo_src Flat_point = Inl IndexError
   \<and> np_asarray (fixed_env demo_batch (demo_out [1, 1, 1] [1, 1, 1]) None) Ragged_points
     = Inl ValueError
   \<and> predator_infer (fixed_env demo_batch (demo_out [1, 1, 1] [1, 1, 1]) None)
        \<lparr> n_points = 1000 \<rparr> (\<lambda>i. 0) Ragged_points demo_tgt = Inl ValueError
   \<and> predator_infer (fixed_env demo_batch (demo_out [1, 1, 1] [1, 1, 1]) None)
        \<lparr> n_points = 1000 \<rparr> (\<lambda>i. 0) demo_src Ragged_points = Inl ValueError"
proof -
  let ?env = "fixed_env demo_batch (demo_out [1, 1, 1] [1, 1, 1]) None"
  let ?cfg = "\<lparr> n_points = 1000 \<rparr>"
  have e: "np_asarray ?env Empty_list = Inr \<lparr> arr_shape = [0], arr_data = [] \<rparr>"
    and t: "np_asarray ?env demo_tgt = Inr \<lparr> arr_shape = [1, 3], arr_data = [0, 1, 0] \<rparr>"
    and s: "np_asarray ?env demo_src
              = Inr \<lparr> arr_shape = [2, 3], arr_data = [0, 0, 0, 1, 0, 0] \<rparr>"
    and f: "np_asarray ?env Flat_point = Inr \<lparr> arr_shape = [3], arr_data = [0, 0, 0] \<rparr>"
    and r: "np_asarray ?env Ragged_points = Inl ValueError"
    by (simp_all add: fixed_env_def demo_src_def demo_tgt_def)
  have 1: "predator_infer ?env ?cfg (\<lambda>i. 0) Empty_list demo_tgt = Inl IndexError"
    by (rule empty_or_flat_cloud_fails_early[THEN conjunct2, THEN conjunct2, THEN conjunct1,
          THEN mp, OF conjI[OF e conjI[OF t]]]) simp
  have 2: "predator_infer ?env ?cfg (\<lambda>i. 0) demo_src Flat_point = Inl IndexError"
    by (rule empty_or_flat_cloud_fails_early[THEN conjunct2, THEN conjunct2, THEN conjunct1,
          THEN mp, OF conjI[OF s conjI[OF f]]]) simp
  have 3: "predator_infer ?env ?cfg (\<lambda>i. 0) Ragged_points demo_tgt = Inl ValueError"
    by (rule empty_or_flat_cloud_fails_early[THEN conjunct1, THEN mp, OF r])
  have 4: "predator_infer ?env ?cfg (\<lambda>i. 0) demo_src Ragged_points = Inl ValueError"
    by (rule empty_or_flat_cloud_fails_early[THEN conjunct2, THEN conjunct1, THEN mp,
          OF conjI[OF s r]])
  show ?thesis
    by (intro conjI e t 1 s f 2 r 3 4)
qed

text \<open>
  Claim C5 as stated (an empty or malformed cloud fails with \<^verbatim>\<open>InvalidInputError\<close> at
  the boundary) fails: the empty source cloud raises \<^verbatim>\<open>IndexError\<close>, a source cloud
  whose points differ in length raises \<^verbatim>\<open>ValueError\<close>, and a cloud whose only point has
  two coordinates passes the constructor and the item of the dataset.
\<close>

theorem empty_cloud_counterexample:
  "predator_infer (fixed_env demo_batch (demo_out [1, 1, 1] [1, 1, 1]) None)
      \<lparr> n_points = 1000 \<rparr> (\<lambda>i. 0) Empty_list demo_tgt = Inl IndexError
   \<and> predator_infer (fixed_env demo_batch (demo_out [1, 1, 1] [1, 1, 1]) None)
      \<lparr> n_points = 1000 \<rparr> (\<lambda>i. 0) Empty_list demo_tgt \<noteq> Inl InvalidInputError
   \<and> predator_infer (fixed_env demo_batch (demo_out [1, 1, 1] [1, 1, 1]) None)
      \<lparr> n_points = 1000 \<rparr> (\<lambda>i. 0) Ragged_points demo_tgt = Inl ValueError
   \<and> (\<exists>d item. ThreeDMatchDemo_init demo_asarray Planar_point demo_tgt = Inr d
          \<and> ThreeDMatchDemo_getitem d = Inr item
          \<and> arr_shape (item_src_pcd item) = [1, 2])"
  by (simp add: predator_infer_def prepare_def ThreeDMatchDemo_init_def fixed_env_def
      ThreeDMatchDemo_getitem_def ones_like_first_column_def demo_tgt_def Let_def)






end
